theory Spec2Isabelle
  imports Complex_Main "HOL-Library.Word"
begin

section \<open>Go values shared by all packages\<close>

text \<open>
  A Go floating-point value, seen as the number it denotes: a NaN, one of the two
  infinities, the negative zero, or a finite real (\<open>Finite 0\<close> is the positive zero).
  Every \<open>float64\<close> and every \<open>float32\<close> is one of these values; the type has more
  finite values than either format, so a theorem about all of them covers the program's.
  The comparisons and the rounding operations the program uses (subtraction in double
  precision, conversion to single precision) are defined on these values below.
\<close>

datatype float = NaN | NegInf | NegZero | Finite real | PosInf

type_synonym float64 = float
type_synonym float32 = float
type_synonym uint8 = "8 word"

text \<open>The number a value that is neither NaN nor infinite denotes.\<close>

fun float_val :: "float \<Rightarrow> real" where
  "float_val (Finite r) = r"
| "float_val _ = 0"

text \<open>Go's \<open><\<close> and \<open>></\<close> on floats: every comparison with a NaN is false.\<close>

fun float_lt :: "float \<Rightarrow> float \<Rightarrow> bool" where
  "float_lt NaN _ = False"
| "float_lt _ NaN = False"
| "float_lt PosInf _ = False"
| "float_lt _ NegInf = False"
| "float_lt NegInf _ = True"
| "float_lt _ PosInf = True"
| "float_lt a b = (float_val a < float_val b)"

definition float_gt :: "float \<Rightarrow> float \<Rightarrow> bool" where
  "float_gt a b = float_lt b a"

text \<open>
  Rounding as Go does it (IEEE 754, round to nearest, ties to even). \<open>round_ties_even\<close>
  rounds a real to an integer. \<open>round_to_format p emax r\<close> rounds the real \<open>r\<close> into the
  binary format with \<open>p\<close> significand bits and largest exponent \<open>emax\<close> (smallest normal
  exponent \<open>1 - emax\<close>): at or beyond the format's largest number plus half a unit in
  the last place the result is an infinity; otherwise \<open>r\<close> is rounded to a multiple of
  the unit in the last place at its magnitude (at the smallest normal exponent for
  subnormal magnitudes), and a zero result keeps the sign of \<open>r\<close>.
\<close>

definition round_ties_even :: "real \<Rightarrow> int" where
  "round_ties_even q =
     (let f = \<lfloor>q\<rfloor>
      in if q - of_int f < 1 / 2 then f
         else if 1 / 2 < q - of_int f then f + 1
         else if even f then f else f + 1)"

definition round_to_format :: "nat \<Rightarrow> int \<Rightarrow> real \<Rightarrow> float" where
  "round_to_format p emax r =
     (if 2 powi emax * (2 - 1 / 2 ^ p) \<le> \<bar>r\<bar> then (if r < 0 then NegInf else PosInf)
      else
        (let e = max \<lfloor>log 2 \<bar>r\<bar>\<rfloor> (1 - emax) - (int p - 1);
             v = of_int (round_ties_even (r / 2 powi e)) * 2 powi e
         in if v = 0 then (if r < 0 then NegZero else Finite 0) else Finite v))"

text \<open>
  The conversion \<open>float32(x)\<close> of a \<open>float64\<close>: single precision has 24 significand
  bits and largest exponent 127.
\<close>

fun float32_conv :: "float64 \<Rightarrow> float32" where
  "float32_conv (Finite r) = round_to_format 24 127 r"
| "float32_conv x = x"

text \<open>
  The subtraction \<open>x - y\<close> of two \<open>float64\<close>: double precision has 53 significand bits
  and largest exponent 1023. The difference of two equal numbers is the positive zero,
  except that \<open>-0 - (+0)\<close> is \<open>-0\<close>.
\<close>

fun float64_sub :: "float64 \<Rightarrow> float64 \<Rightarrow> float64" where
  "float64_sub NaN _ = NaN"
| "float64_sub _ NaN = NaN"
| "float64_sub PosInf PosInf = NaN"
| "float64_sub NegInf NegInf = NaN"
| "float64_sub PosInf _ = PosInf"
| "float64_sub NegInf _ = NegInf"
| "float64_sub _ PosInf = NegInf"
| "float64_sub _ NegInf = PosInf"
| "float64_sub NegZero (Finite y) =
     (if y = 0 then NegZero else round_to_format 53 1023 (- y))"
| "float64_sub a b = round_to_format 53 1023 (float_val a - float_val b)"

text \<open>A value that is a number: neither a NaN nor an infinity.\<close>

fun float_is_number :: "float \<Rightarrow> bool" where
  "float_is_number (Finite r) = True"
| "float_is_number NegZero = True"
| "float_is_number _ = False"

text \<open>An \<open>error\<close> value made by \<open>fmt.Errorf\<close>; the nil error is \<open>None\<close>.\<close>

datatype error = Errorf string

text \<open>
  What a call does: it returns, or it panics (index out of range) and the program
  stops.
\<close>

datatype 'a go_result = Panic string | Return 'a

text \<open>Indexing a slice, \<open>xs[i]\<close>: a panic outside \<open>0 \<le> i < len(xs)\<close>.\<close>

definition index :: "'a list \<Rightarrow> int \<Rightarrow> 'a go_result" where
  "index xs i =
     (if 0 \<le> i \<and> i < int (length xs) then Return (xs ! nat i)
      else Panic ''index out of range'')"

section \<open>Package geom: points\<close>

record Point64 =
  X :: float64
  Y :: float64
  Z :: float64
  R :: uint8
  G :: uint8
  B :: uint8
  Intensity :: uint8
  Classification :: uint8

record Point32 =
  X :: float32
  Y :: float32
  Z :: float32
  R :: uint8
  G :: uint8
  B :: uint8
  Intensity :: uint8
  Classification :: uint8

text \<open>The zero values \<open>Point64{}\<close> and \<open>Point32{}\<close>.\<close>

definition Point64_zero :: Point64 where
  "Point64_zero =
     \<lparr>Point64.X = Finite 0, Point64.Y = Finite 0, Point64.Z = Finite 0,
      Point64.R = 0, Point64.G = 0, Point64.B = 0,
      Point64.Intensity = 0, Point64.Classification = 0\<rparr>"

definition Point32_zero :: Point32 where
  "Point32_zero =
     \<lparr>Point32.X = Finite 0, Point32.Y = Finite 0, Point32.Z = Finite 0,
      Point32.R = 0, Point32.G = 0, Point32.B = 0,
      Point32.Intensity = 0, Point32.Classification = 0\<rparr>"

definition NewPoint32 ::
  "float32 \<Rightarrow> float32 \<Rightarrow> float32 \<Rightarrow> uint8 \<Rightarrow> uint8 \<Rightarrow> uint8 \<Rightarrow> uint8 \<Rightarrow> uint8 \<Rightarrow> Point32" where
  "NewPoint32 x y z r g b intensity classification =
     \<lparr>Point32.X = x, Point32.Y = y, Point32.Z = z,
      Point32.R = r, Point32.G = g, Point32.B = b,
      Point32.Intensity = intensity, Point32.Classification = classification\<rparr>"

text \<open>
  \<open>ToPointFromBaseline\<close>. The double-precision subtraction \<open>sub64\<close> and the conversion
  \<open>float32\<close> to single precision are parameters: the program runs it with
  \<open>float64_sub\<close> and \<open>float32_conv\<close>, and what does not depend on rounding holds for any
  pair of operations.
\<close>

definition ToPointFromBaseline ::
  "(float64 \<Rightarrow> float64 \<Rightarrow> float64) \<Rightarrow> (float64 \<Rightarrow> float32) \<Rightarrow> Point64 \<Rightarrow> Point64 \<Rightarrow> Point32" where
  "ToPointFromBaseline sub64 float32 p baseline =
     NewPoint32
       (float32 (sub64 (Point64.X p) (Point64.X baseline)))
       (float32 (sub64 (Point64.Y p) (Point64.Y baseline)))
       (float32 (sub64 (Point64.Z p) (Point64.Z baseline)))
       (Point64.R p)
       (Point64.G p)
       (Point64.B p)
       (Point64.Intensity p)
       (Point64.Classification p)"

text \<open>The three coordinates of a point, to state a property once for all of them.\<close>

datatype axis = AxisX | AxisY | AxisZ

fun coord64 :: "axis \<Rightarrow> Point64 \<Rightarrow> float64" where
  "coord64 AxisX p = Point64.X p"
| "coord64 AxisY p = Point64.Y p"
| "coord64 AxisZ p = Point64.Z p"

fun coord32 :: "axis \<Rightarrow> Point32 \<Rightarrow> float32" where
  "coord32 AxisX p = Point32.X p"
| "coord32 AxisY p = Point32.Y p"
| "coord32 AxisZ p = Point32.Z p"

section \<open>Package geom: the linked point stream\<close>

text \<open>
  A \<open>*LinkedPoint\<close> is nil (\<open>None\<close>) or the address of a node. Go is memory safe, so
  every address holds a node: the store is a total function. \<open>Next\<close> and \<open>Reset\<close> only
  read the nodes, so the store is an argument and is never returned.
\<close>

type_synonym addr = nat

record LinkedPoint =
  Next :: "addr option"
  Pt :: Point32

type_synonym store = "addr \<Rightarrow> LinkedPoint"

record LinkedPointStream =
  len :: int
  current :: "addr option"
  start :: "addr option"

definition NewLinkedPointStream :: "addr option \<Rightarrow> int \<Rightarrow> LinkedPointStream" where
  "NewLinkedPointStream root0 len0 = \<lparr>len = len0, current = root0, start = root0\<rparr>"

text \<open>
  The methods take the stream and give it back with the result (the receiver is a
  pointer).
\<close>

definition Next ::
  "store \<Rightarrow> LinkedPointStream \<Rightarrow> (Point32 \<times> error option) \<times> LinkedPointStream" where
  "Next h l =
     (case current l of
        None \<Rightarrow> ((Point32_zero, Some (Errorf ''no more points'')), l)
      | Some a \<Rightarrow>
          (let pt = Pt (h a)
           in ((pt, None), l\<lparr>current := LinkedPoint.Next (h a)\<rparr>)))"

definition Len :: "LinkedPointStream \<Rightarrow> int" where
  "Len l = len l"

definition Reset :: "LinkedPointStream \<Rightarrow> LinkedPointStream" where
  "Reset l = l\<lparr>current := start l\<rparr>"

text \<open>
  A caller of the stream: \<open>Next_n h n l\<close> calls \<open>Next\<close> \<open>n\<close> times in a row and lists
  what each call returned; \<open>run_calls\<close> makes any sequence of calls and drops what
  they return.
\<close>

fun Next_n ::
  "store \<Rightarrow> nat \<Rightarrow> LinkedPointStream \<Rightarrow> (Point32 \<times> error option) list \<times> LinkedPointStream" where
  "Next_n h 0 l = ([], l)"
| "Next_n h (Suc n) l =
     (let (r, l') = Next h l; (rs, l'') = Next_n h n l' in (r # rs, l''))"

datatype stream_call = CallNext | CallLen | CallReset

fun run_calls :: "store \<Rightarrow> stream_call list \<Rightarrow> LinkedPointStream \<Rightarrow> LinkedPointStream" where
  "run_calls h [] l = l"
| "run_calls h (CallNext # cs) l = run_calls h cs (snd (Next h l))"
| "run_calls h (CallLen # cs) l = run_calls h cs l"
| "run_calls h (CallReset # cs) l = run_calls h cs (Reset l)"

text \<open>
  \<open>linked_list h root pts\<close>: following the \<open>Next\<close> pointers from \<open>root\<close> reaches nil,
  and the points met on the way are \<open>pts\<close>. This is a finite list without a cycle.
\<close>

primrec linked_list :: "store \<Rightarrow> addr option \<Rightarrow> Point32 list \<Rightarrow> bool" where
  "linked_list h r [] = (r = None)"
| "linked_list h r (p # ps) =
     (case r of
        None \<Rightarrow> False
      | Some a \<Rightarrow> Pt (h a) = p \<and> linked_list h (LinkedPoint.Next (h a)) ps)"

section \<open>Package las: the mock reader\<close>

record MockLasReader =
  Cur :: int
  Pts :: "Point64 list"
  Srid :: int

definition NumberOfPoints :: "MockLasReader \<Rightarrow> int" where
  "NumberOfPoints m = int (length (Pts m))"

definition GetSrid :: "MockLasReader \<Rightarrow> int" where
  "GetSrid m = Srid m"

text \<open>
  \<open>GetNext\<close>. \<open>m.Cur++\<close> runs only when \<open>m.Cur < len(m.Pts)\<close>, so it cannot overflow
  and \<open>Cur\<close> is an \<open>int\<close>. With a negative \<open>Cur\<close> the read \<open>m.Pts[m.Cur-1]\<close> panics,
  after the increment.
\<close>

definition GetNext ::
  "MockLasReader \<Rightarrow> (Point64 \<times> error option) go_result \<times> MockLasReader" where
  "GetNext m =
     (if Cur m < int (length (Pts m)) then
        (let m' = m\<lparr>Cur := Cur m + 1\<rparr>
         in (case index (Pts m') (Cur m' - 1) of
               Panic e \<Rightarrow> (Panic e, m')
             | Return p \<Rightarrow> (Return (p, None), m')))
      else (Return (Point64_zero, Some (Errorf ''point not available'')), m))"

text \<open>
  The single consumer: \<open>GetNext_n n m\<close> calls \<open>GetNext\<close> \<open>n\<close> times in a row, stopping
  at a panic, and lists what each call did.
\<close>

fun GetNext_n ::
  "nat \<Rightarrow> MockLasReader \<Rightarrow> (Point64 \<times> error option) go_result list \<times> MockLasReader" where
  "GetNext_n 0 m = ([], m)"
| "GetNext_n (Suc n) m =
     (case GetNext m of
        (Panic e, m') \<Rightarrow> ([Panic e], m')
      | (Return r, m') \<Rightarrow> (let (rs, m'') = GetNext_n n m' in (Return r # rs, m'')))"

section \<open>Package tiler: the options\<close>

text \<open>
  \<open>TilerOptions\<close>. A callback is a function value with effects; only which callback a
  record holds matters here, so callbacks are values of a type \<open>'cb\<close> and the nil
  callback is \<open>None\<close>.
\<close>

record 'cb TilerOptions =
  gridSize :: float64
  maxDepth :: int
  elevationOffset :: float64
  eightBitColors :: bool
  geoidElevation :: bool
  numWorkers :: int
  minPointsPerTile :: int
  callback :: "'cb option"

text \<open>
  An option function mutates the record it is given a pointer to: it maps the record
  to the updated record.
\<close>

type_synonym 'cb tilerOptionsFn = "'cb TilerOptions \<Rightarrow> 'cb TilerOptions"

text \<open>
  \<open>NewDefaultTilerOptions\<close>; \<open>NumCPU\<close> is what \<open>runtime.NumCPU()\<close> returns on the host.
\<close>

definition NewDefaultTilerOptions :: "int \<Rightarrow> 'cb TilerOptions" where
  "NewDefaultTilerOptions NumCPU =
     \<lparr>gridSize = Finite 20,
      maxDepth = 10,
      elevationOffset = Finite 0,
      eightBitColors = False,
      geoidElevation = False,
      numWorkers = NumCPU,
      minPointsPerTile = 5000,
      callback = None\<rparr>"

text \<open>\<open>NewTilerOptions\<close>: the loop over \<open>optFn\<close> runs from the first element on.\<close>

definition NewTilerOptions :: "int \<Rightarrow> 'cb tilerOptionsFn list \<Rightarrow> 'cb TilerOptions" where
  "NewTilerOptions NumCPU optFn =
     foldl (\<lambda>opts fn. fn opts) (NewDefaultTilerOptions NumCPU) optFn"

definition WithGridSize :: "float64 \<Rightarrow> 'cb tilerOptionsFn" where
  "WithGridSize sz = (\<lambda>opt. opt\<lparr>gridSize := sz\<rparr>)"

definition WithMaxDepth :: "int \<Rightarrow> 'cb tilerOptionsFn" where
  "WithMaxDepth maxDepth0 = (\<lambda>opt. opt\<lparr>maxDepth := maxDepth0\<rparr>)"

definition WithElevationOffset :: "float64 \<Rightarrow> 'cb tilerOptionsFn" where
  "WithElevationOffset offset = (\<lambda>opt. opt\<lparr>elevationOffset := offset\<rparr>)"

definition WithWorkerNumber :: "int \<Rightarrow> 'cb tilerOptionsFn" where
  "WithWorkerNumber numWorkers0 = (\<lambda>opt. opt\<lparr>numWorkers := numWorkers0\<rparr>)"

definition WithMinPointsPerTile :: "int \<Rightarrow> 'cb tilerOptionsFn" where
  "WithMinPointsPerTile minPointsPerTile0 = (\<lambda>opt. opt\<lparr>minPointsPerTile := minPointsPerTile0\<rparr>)"

definition WithCallback :: "'cb option \<Rightarrow> 'cb tilerOptionsFn" where
  "WithCallback callback0 = (\<lambda>opt. opt\<lparr>callback := callback0\<rparr>)"

definition WithEightBitColors :: "bool \<Rightarrow> 'cb tilerOptionsFn" where
  "WithEightBitColors eightBit0 = (\<lambda>opt. opt\<lparr>eightBitColors := eightBit0\<rparr>)"

definition WithGeoidElevation :: "bool \<Rightarrow> 'cb tilerOptionsFn" where
  "WithGeoidElevation geoid0 = (\<lambda>opt. opt\<lparr>geoidElevation := geoid0\<rparr>)"

text \<open>
  Vocabulary for statements about the options: the eight fields, the option functions
  that \<open>WithX\<close> makes for a field, and two records agreeing on a field.
\<close>

datatype field =
  GridSize | MaxDepth | ElevationOffset | EightBitColors | GeoidElevation
  | NumWorkers | MinPointsPerTile | Callback

fun option_fns :: "field \<Rightarrow> 'cb tilerOptionsFn set" where
  "option_fns GridSize = range WithGridSize"
| "option_fns MaxDepth = range WithMaxDepth"
| "option_fns ElevationOffset = range WithElevationOffset"
| "option_fns EightBitColors = range WithEightBitColors"
| "option_fns GeoidElevation = range WithGeoidElevation"
| "option_fns NumWorkers = range WithWorkerNumber"
| "option_fns MinPointsPerTile = range WithMinPointsPerTile"
| "option_fns Callback = range WithCallback"

fun agree_on :: "field \<Rightarrow> 'cb TilerOptions \<Rightarrow> 'cb TilerOptions \<Rightarrow> bool" where
  "agree_on GridSize a b = (gridSize a = gridSize b)"
| "agree_on MaxDepth a b = (maxDepth a = maxDepth b)"
| "agree_on ElevationOffset a b = (elevationOffset a = elevationOffset b)"
| "agree_on EightBitColors a b = (eightBitColors a = eightBitColors b)"
| "agree_on GeoidElevation a b = (geoidElevation a = geoidElevation b)"
| "agree_on NumWorkers a b = (numWorkers a = numWorkers b)"
| "agree_on MinPointsPerTile a b = (minPointsPerTile a = minPointsPerTile b)"
| "agree_on Callback a b = (callback a = callback b)"

section \<open>Package main: the command line\<close>

record cliOpts =
  "output" :: string
  epsg :: int
  maxDepth :: int
  minPoints :: int
  resolution :: float64
  zOffset :: float64
  geoid :: bool
  eightBit :: bool
  join :: bool

text \<open>\<open>log.Fatal\<close> prints its argument, a message or an error, and exits the process.\<close>

datatype fatal = Fatal string | FatalErr error

text \<open>\<open>validate\<close>: \<open>Inl\<close> is the exit at the first check that fails, \<open>Inr ()\<close> the return.\<close>

definition validate :: "cliOpts \<Rightarrow> fatal + unit" where
  "validate c =
     (if output c = '''' then Inl (Fatal ''output flag must be set'')
      else if epsg c \<le> 0 then Inl (Fatal ''epsg code is invalid'')
      else if cliOpts.maxDepth c \<le> 1 \<or> cliOpts.maxDepth c > 20
        then Inl (Fatal ''depth should be between 1 and 20'')
      else if minPoints c < 1 then Inl (Fatal ''min-points-per-tile should be at least 1'')
      else if float_lt (resolution c) (Finite 0.5) \<or> float_gt (resolution c) (Finite 1000)
        then Inl (Fatal ''resolution should be between 1 and 1000 meters'')
      else Inr ())"

text \<open>
  The configuration the specification allows: a value lies in a closed range when it is
  a number, not below the lower end and not above the upper end.
\<close>

fun float_in_range :: "real \<Rightarrow> real \<Rightarrow> float \<Rightarrow> bool" where
  "float_in_range lo hi (Finite r) = (lo \<le> r \<and> r \<le> hi)"
| "float_in_range lo hi NegZero = (lo \<le> 0 \<and> 0 \<le> hi)"
| "float_in_range lo hi _ = False"

definition valid_configuration :: "cliOpts \<Rightarrow> bool" where
  "valid_configuration c =
     (output c \<noteq> '''' \<and> 0 < epsg c
      \<and> 2 \<le> cliOpts.maxDepth c \<and> cliOpts.maxDepth c \<le> 20
      \<and> 1 \<le> minPoints c
      \<and> float_in_range 0.5 1000 (resolution c))"

text \<open>
  What the commands work with and this file does not define: the tiler provider (a
  global variable), the directory scan of package utils, the event listener and the
  host's CPU count. A tiler is the error each entry point returns; the context argument
  is left out.
\<close>

record 'cb Tiler =
  ProcessFiles :: "string list \<Rightarrow> string \<Rightarrow> int \<Rightarrow> 'cb TilerOptions \<Rightarrow> error option"
  ProcessFolder :: "string \<Rightarrow> string \<Rightarrow> int \<Rightarrow> 'cb TilerOptions \<Rightarrow> error option"

record 'cb environment =
  tilerProvider :: "'cb Tiler \<times> error option"
  FindLasFilesInFolder :: "string \<Rightarrow> string list \<times> error option"
  eventListener :: 'cb
  NumCPU :: int

text \<open>The calls a command makes to the tiler, in order, with their arguments.\<close>

datatype 'cb tiler_call =
  CallProcessFiles "string list" string int "'cb TilerOptions"
  | CallProcessFolder string string int "'cb TilerOptions"

fun is_ProcessFiles :: "'cb tiler_call \<Rightarrow> bool" where
  "is_ProcessFiles (CallProcessFiles _ _ _ _) = True"
| "is_ProcessFiles (CallProcessFolder _ _ _ _) = False"

definition getTilerOptions :: "'cb environment \<Rightarrow> cliOpts \<Rightarrow> fatal + 'cb TilerOptions" where
  "getTilerOptions env c =
     (case validate c of
        Inl f \<Rightarrow> Inl f
      | Inr _ \<Rightarrow>
          Inr (NewTilerOptions (NumCPU env)
            [WithEightBitColors (eightBit c),
             WithGeoidElevation (geoid c),
             WithElevationOffset (zOffset c),
             WithGridSize (resolution c),
             WithMaxDepth (cliOpts.maxDepth c),
             WithMinPointsPerTile (minPoints c),
             WithCallback (Some (eventListener env))]))"

text \<open>
  \<open>launch\<close> runs the function in one goroutine and waits for it: the function runs
  once, and an error it returns is fatal.
\<close>

definition launch :: "'cb tiler_call list \<times> error option \<Rightarrow> 'cb tiler_call list \<times> (fatal + unit)" where
  "launch function =
     (case function of
        (calls, Some err) \<Rightarrow> (calls, Inl (FatalErr err))
      | (calls, None) \<Rightarrow> (calls, Inr ()))"

text \<open>
  \<open>folderCommand\<close> returns the calls made to the tiler and how the command ended.
  Printing is left out.
\<close>

definition folderCommand ::
  "'cb environment \<Rightarrow> cliOpts \<Rightarrow> string \<Rightarrow> 'cb tiler_call list \<times> (fatal + unit)" where
  "folderCommand env opts folderpath =
     (case tilerProvider env of
        (t, Some err) \<Rightarrow> ([], Inl (FatalErr err))
      | (t, None) \<Rightarrow>
          (case getTilerOptions env opts of
             Inl f \<Rightarrow> ([], Inl f)
           | Inr tilerOpts \<Rightarrow>
               launch
                 (if join opts then
                    (case FindLasFilesInFolder env folderpath of
                       (files, Some err) \<Rightarrow> ([], Some err)
                     | (files, None) \<Rightarrow>
                         ([CallProcessFiles files (output opts) (epsg opts) tilerOpts],
                          ProcessFiles t files (output opts) (epsg opts) tilerOpts))
                  else
                    ([CallProcessFolder folderpath (output opts) (epsg opts) tilerOpts],
                     ProcessFolder t folderpath (output opts) (epsg opts) tilerOpts))))"

text \<open>
  Inputs after the folder tests in \<open>main_test.go\<close>: a mock tiler whose entry points
  return nil, a folder whose scan finds \<open>files\<close>, on a host with 8 CPUs, and the options
  of a command line like the tests' one, with or without \<open>-join\<close>; \<open>test_TilerOptions\<close>
  is what the tiler is then expected to be called with.
\<close>

definition MockTiler :: "unit Tiler" where
  "MockTiler = \<lparr>ProcessFiles = (\<lambda>_ _ _ _. None), ProcessFolder = (\<lambda>_ _ _ _. None)\<rparr>"

definition test_environment :: "string list \<Rightarrow> unit environment" where
  "test_environment files =
     \<lparr>tilerProvider = (MockTiler, None),
      FindLasFilesInFolder = (\<lambda>_. (files, None)),
      eventListener = (),
      NumCPU = 8\<rparr>"

definition test_cliOpts :: "bool \<Rightarrow> cliOpts" where
  "test_cliOpts j =
     \<lparr>output = ''abc'', epsg = 4979, maxDepth = 13, minPoints = 1200,
      resolution = Finite 12.5, zOffset = Finite (- 1),
      geoid = True, eightBit = True, join = j\<rparr>"

definition test_TilerOptions :: "unit TilerOptions" where
  "test_TilerOptions =
     \<lparr>gridSize = Finite 12.5,
      maxDepth = 13,
      elevationOffset = Finite (- 1),
      eightBitColors = True,
      geoidElevation = True,
      numWorkers = 8,
      minPointsPerTile = 1200,
      callback = Some ()\<rparr>"

section \<open>The mock reader delivers its points once, in order\<close>

lemma GetNext_in_range:
  "0 \<le> Cur m \<Longrightarrow> Cur m < int (length (Pts m)) \<Longrightarrow>
   GetNext m = (Return (Pts m ! nat (Cur m), None), m\<lparr>Cur := Cur m + 1\<rparr>)"
  by (simp add: GetNext_def index_def Let_def)

lemma GetNext_exhausted:
  "int (length (Pts m)) \<le> Cur m \<Longrightarrow>
   GetNext m = (Return (Point64_zero, Some (Errorf ''point not available'')), m)"
  by (simp add: GetNext_def)

text \<open>
  From a cursor inside the slice, the calls up to the end return the rest of the slice.
\<close>

lemma GetNext_n_from:
  "0 \<le> Cur m \<Longrightarrow> Cur m + int k = int (length (Pts m)) \<Longrightarrow>
   GetNext_n k m =
     (map (\<lambda>p. Return (p, None)) (drop (nat (Cur m)) (Pts m)),
      m\<lparr>Cur := int (length (Pts m))\<rparr>)"
proof (induction k arbitrary: m)
  case 0
  then show ?case by simp
next
  case (Suc k)
  let ?m' = "m\<lparr>Cur := Cur m + 1\<rparr>"
  from Suc.prems have lt: "Cur m < int (length (Pts m))" by simp
  have step: "GetNext m = (Return (Pts m ! nat (Cur m), None), ?m')"
    using Suc.prems(1) lt by (rule GetNext_in_range)
  have ih: "GetNext_n k ?m' =
     (map (\<lambda>p. Return (p, None)) (drop (nat (Cur ?m')) (Pts ?m')),
      ?m'\<lparr>Cur := int (length (Pts ?m'))\<rparr>)"
    using Suc.prems by (intro Suc.IH) simp_all
  have nat_lt: "nat (Cur m) < length (Pts m)" using Suc.prems(1) lt by simp
  have dr: "drop (nat (Cur m)) (Pts m) = Pts m ! nat (Cur m) # drop (nat (Cur m + 1)) (Pts m)"
    using nat_lt Suc.prems(1) by (simp add: Cons_nth_drop_Suc nat_add_distrib)
  show ?case using step ih dr by simp
qed

lemma GetNext_n_exhausted:
  "int (length (Pts m)) \<le> Cur m \<Longrightarrow>
   GetNext_n k m = (replicate k (Return (Point64_zero, Some (Errorf ''point not available''))), m)"
  by (induction k) (simp_all add: GetNext_exhausted)

text \<open>
  Claim C3, as stated for every point source holding \<open>n\<close> stored points. The cursor is a
  field any caller can set, and a source built with the cursor at 1 skips the first
  stored point: of its two points the first two calls return the second one, and then
  the zero-value point with an error.
\<close>

theorem GetNext_skips_points_before_cursor:
  "NumberOfPoints
     \<lparr>Cur = 1, Pts = [Point64_zero\<lparr>Point64.X := Finite 1\<rparr>, Point64_zero\<lparr>Point64.X := Finite 2\<rparr>],
      Srid = 4326\<rparr> = 2
   \<and> fst (GetNext_n 2
       \<lparr>Cur = 1, Pts = [Point64_zero\<lparr>Point64.X := Finite 1\<rparr>, Point64_zero\<lparr>Point64.X := Finite 2\<rparr>],
        Srid = 4326\<rparr>)
     = [Return (Point64_zero\<lparr>Point64.X := Finite 2\<rparr>, None),
        Return (Point64_zero, Some (Errorf ''point not available''))]
   \<and> fst (GetNext_n 2
       \<lparr>Cur = 1, Pts = [Point64_zero\<lparr>Point64.X := Finite 1\<rparr>, Point64_zero\<lparr>Point64.X := Finite 2\<rparr>],
        Srid = 4326\<rparr>)
     \<noteq> [Return (Point64_zero\<lparr>Point64.X := Finite 1\<rparr>, None),
        Return (Point64_zero\<lparr>Point64.X := Finite 2\<rparr>, None)]"
  by (simp add: NumberOfPoints_def GetNext_def index_def numeral_2_eq_2 Point64_zero_def)

text \<open>
  Claim C3, amended. For a point source holding \<open>n\<close> stored points whose cursor is 0
  (the zero value of the field: \<open>GetNext\<close> has not been called yet), \<open>NumberOfPoints\<close>
  returns \<open>n\<close>, and the first \<open>n\<close> calls to \<open>GetNext\<close> return exactly the stored points,
  in storage order, each with a nil error; none panics, and the cursor ends at \<open>n\<close>.
\<close>

theorem GetNext_returns_stored_points:
  "Cur m = 0 \<Longrightarrow>
   NumberOfPoints m = int (length (Pts m))
   \<and> GetNext_n (length (Pts m)) m =
       (map (\<lambda>p. Return (p, None)) (Pts m), m\<lparr>Cur := int (length (Pts m))\<rparr>)"
  using GetNext_n_from [of m "length (Pts m)"] by (simp add: NumberOfPoints_def)

theorem GetNext_returns_stored_points_witness:
  "Cur \<lparr>Cur = 0, Pts = [Point64_zero, Point64_zero\<lparr>Point64.X := Finite 1\<rparr>], Srid = 4326\<rparr> = 0
   \<and> NumberOfPoints \<lparr>Cur = 0, Pts = [Point64_zero, Point64_zero\<lparr>Point64.X := Finite 1\<rparr>], Srid = 4326\<rparr> = 2
   \<and> GetNext_n 2 \<lparr>Cur = 0, Pts = [Point64_zero, Point64_zero\<lparr>Point64.X := Finite 1\<rparr>], Srid = 4326\<rparr> =
       ([Return (Point64_zero, None), Return (Point64_zero\<lparr>Point64.X := Finite 1\<rparr>, None)],
        \<lparr>Cur = 2, Pts = [Point64_zero, Point64_zero\<lparr>Point64.X := Finite 1\<rparr>], Srid = 4326\<rparr>)"
  using GetNext_returns_stored_points
    [of "\<lparr>Cur = 0, Pts = [Point64_zero, Point64_zero\<lparr>Point64.X := Finite 1\<rparr>], Srid = 4326\<rparr>"]
  by (simp add: numeral_2_eq_2)

text \<open>
  Claim C4. Once all stored points have been returned (\<open>m'\<close> is the source after the
  first \<open>n\<close> calls), every later call to \<open>GetNext\<close> returns the zero-value point with
  the error "point not available" and leaves the source as it was, so the error recurs
  on each of any \<open>k\<close> further calls, and \<open>NumberOfPoints\<close> and \<open>GetSrid\<close> still return
  what they returned at the start.
\<close>

theorem GetNext_after_last_point:
  "Cur m = 0 \<Longrightarrow> m' = snd (GetNext_n (length (Pts m)) m) \<Longrightarrow>
   GetNext m' = (Return (Point64_zero, Some (Errorf ''point not available'')), m')
   \<and> GetNext_n k m' =
       (replicate k (Return (Point64_zero, Some (Errorf ''point not available''))), m')
   \<and> NumberOfPoints m' = NumberOfPoints m \<and> GetSrid m' = GetSrid m"
proof -
  assume c: "Cur m = 0" and m': "m' = snd (GetNext_n (length (Pts m)) m)"
  have "m' = m\<lparr>Cur := int (length (Pts m))\<rparr>"
    using GetNext_n_from [of m "length (Pts m)"] c m' by simp
  then have ex: "int (length (Pts m')) \<le> Cur m'" and same: "Pts m' = Pts m" "Srid m' = Srid m"
    by simp_all
  show ?thesis
    using GetNext_exhausted [OF ex] GetNext_n_exhausted [OF ex] same
    by (simp add: NumberOfPoints_def GetSrid_def)
qed

theorem GetNext_after_last_point_witness:
  "Cur \<lparr>Cur = 0, Pts = [Point64_zero], Srid = 4326\<rparr> = 0
   \<and> snd (GetNext_n 1 \<lparr>Cur = 0, Pts = [Point64_zero], Srid = 4326\<rparr>)
       = \<lparr>Cur = 1, Pts = [Point64_zero], Srid = 4326\<rparr>
   \<and> GetNext_n 3 \<lparr>Cur = 1, Pts = [Point64_zero], Srid = 4326\<rparr> =
       (replicate 3 (Return (Point64_zero, Some (Errorf ''point not available''))),
        \<lparr>Cur = 1, Pts = [Point64_zero], Srid = 4326\<rparr>)"
proof -
  have c: "Cur \<lparr>Cur = 0, Pts = [Point64_zero], Srid = 4326\<rparr> = 0" by simp
  have m': "\<lparr>Cur = 1, Pts = [Point64_zero], Srid = 4326\<rparr>
      = snd (GetNext_n (length (Pts \<lparr>Cur = 0, Pts = [Point64_zero], Srid = 4326\<rparr>))
               \<lparr>Cur = 0, Pts = [Point64_zero], Srid = 4326\<rparr>)"
    by (simp add: GetNext_def index_def)
  from GetNext_after_last_point [OF c m', of 3] c m' show ?thesis by simp
qed

section \<open>Rounding to a binary format\<close>

text \<open>
  Rounding to the nearest integer is off by at most one half, and keeps an integer.
\<close>

lemma round_ties_even_error: "\<bar>of_int (round_ties_even q) - q\<bar> \<le> 1 / 2"
  unfolding round_ties_even_def Let_def by (auto; linarith)

lemma round_ties_even_of_int: "round_ties_even (of_int n) = n"
  by (simp add: round_ties_even_def)

lemma two_powr_int: "(2::real) powr real_of_int k = 2 powi k"
  by (simp add: powr_real_of_int')

lemma two_powr_int_Suc: "(2::real) powr (real_of_int k + 1) = 2 powi (k + 1)"
  using two_powr_int [of "k + 1"] by simp

lemma floor_log2_bounds:
  assumes "r \<noteq> 0"
  shows "2 powi \<lfloor>log 2 \<bar>r\<bar>\<rfloor> \<le> \<bar>r\<bar>" and "\<bar>r\<bar> < 2 powi (\<lfloor>log 2 \<bar>r\<bar>\<rfloor> + 1)"
proof -
  have pos: "0 < \<bar>r\<bar>" using assms by simp
  have "2 powr real_of_int \<lfloor>log 2 \<bar>r\<bar>\<rfloor> \<le> \<bar>r\<bar> \<and> \<bar>r\<bar> < 2 powr real_of_int (\<lfloor>log 2 \<bar>r\<bar>\<rfloor> + 1)"
    using floor_log_eq_powr_iff [OF pos, of 2 "\<lfloor>log 2 \<bar>r\<bar>\<rfloor>"] by simp
  then show "2 powi \<lfloor>log 2 \<bar>r\<bar>\<rfloor> \<le> \<bar>r\<bar>" and "\<bar>r\<bar> < 2 powi (\<lfloor>log 2 \<bar>r\<bar>\<rfloor> + 1)"
    by (simp_all add: two_powr_int two_powr_int_Suc)
qed

lemma floor_log2_eq:
  assumes "2 powi k \<le> \<bar>r\<bar>" "\<bar>r\<bar> < 2 powi (k + 1)"
  shows "\<lfloor>log 2 \<bar>r\<bar>\<rfloor> = k"
proof -
  have pos: "0 < \<bar>r\<bar>" using assms(1) by (smt (verit) zero_less_power_int)
  show ?thesis
    using floor_log_eq_powr_iff [OF pos, of 2 k] assms
    by (simp add: two_powr_int two_powr_int_Suc)
qed

lemma round_to_format_value:
  assumes "\<bar>r\<bar> < 2 powi emax * (2 - 1 / 2 ^ p)"
  defines "e \<equiv> max \<lfloor>log 2 \<bar>r\<bar>\<rfloor> (1 - emax) - (int p - 1)"
  defines "v \<equiv> of_int (round_ties_even (r / 2 powi e)) * 2 powi e"
  shows "float_val (round_to_format p emax r) = v"
    and "round_to_format p emax r = (if v = 0 then (if r < 0 then NegZero else Finite 0) else Finite v)"
  using assms(1) unfolding e_def v_def
  by (simp_all add: round_to_format_def Let_def)

lemma round_to_format_error:
  assumes thr: "\<bar>r\<bar> < 2 powi emax * (2 - 1 / 2 ^ p)"
  shows "\<bar>float_val (round_to_format p emax r) - r\<bar>
           \<le> max (\<bar>r\<bar> / 2 ^ p) (2 powi (1 - emax - int p))"
proof (cases "r = 0")
  case True
  then show ?thesis
    using round_to_format_value(1) [OF thr]
    by (simp add: round_ties_even_def max_def)
next
  case False
  define L where "L = \<lfloor>log 2 \<bar>r\<bar>\<rfloor>"
  define e where "e = max L (1 - emax) - (int p - 1)"
  define u :: real where "u = 2 powi e"
  define n where "n = round_ties_even (r / u)"
  have upos: "0 < u" by (simp add: u_def)
  have val: "float_val (round_to_format p emax r) = of_int n * u"
    using round_to_format_value(1) [OF thr] by (simp add: n_def u_def e_def L_def)
  have "\<bar>of_int n - r / u\<bar> \<le> 1 / 2"
    unfolding n_def by (rule round_ties_even_error)
  then have "\<bar>of_int n - r / u\<bar> * u \<le> 1 / 2 * u"
    using upos by (intro mult_right_mono) simp_all
  moreover have "\<bar>of_int n - r / u\<bar> * u = \<bar>of_int n * u - r\<bar>"
  proof -
    have "\<bar>of_int n - r / u\<bar> * u = \<bar>(of_int n - r / u) * u\<bar>"
      using upos by (simp add: abs_mult)
    also have "(of_int n - r / u) * u = of_int n * u - r"
      using upos by (simp add: field_simps)
    finally show ?thesis .
  qed
  ultimately have err: "\<bar>of_int n * u - r\<bar> \<le> u / 2" by simp
  have half: "u / 2 = 2 powi (e - 1)"
    by (simp add: u_def power_int_diff)
  have "u / 2 \<le> max (\<bar>r\<bar> / 2 ^ p) (2 powi (1 - emax - int p))"
  proof (cases "1 - emax \<le> L")
    case True
    then have "e - 1 = L - int p" by (simp add: e_def)
    then have "u / 2 = 2 powi L / 2 ^ p"
      using half by (simp add: power_int_diff)
    also have "\<dots> \<le> \<bar>r\<bar> / 2 ^ p"
      using floor_log2_bounds(1) [OF False]
      by (intro divide_right_mono) (simp_all add: L_def)
    finally show ?thesis by (rule max.coboundedI1)
  next
    case False
    then have "e - 1 = 1 - emax - int p" by (simp add: e_def)
    then have "u / 2 = 2 powi (1 - emax - int p)" by (simp only: half)
    then show ?thesis by simp
  qed
  with err val show ?thesis by simp
qed

lemma round_to_format_number:
  assumes "\<bar>r\<bar> < 2 powi emax * (2 - 1 / 2 ^ p)"
  shows "round_to_format p emax r = NegZero \<or> round_to_format p emax r = Finite (float_val (round_to_format p emax r))"
  using round_to_format_value(2) [OF assms] by (simp add: Let_def)

lemma round_to_format_exact:
  assumes r: "r = of_int m * 2 powi k"
    and m: "\<bar>m\<bar> < 2 ^ p"
    and k: "2 - emax - int p \<le> k"
    and nz: "r \<noteq> 0"
    and thr: "\<bar>r\<bar> < 2 powi emax * (2 - 1 / 2 ^ p)"
  shows "round_to_format p emax r = Finite r"
proof -
  define L where "L = \<lfloor>log 2 \<bar>r\<bar>\<rfloor>"
  define e where "e = max L (1 - emax) - (int p - 1)"
  have "\<bar>r\<bar> = of_int \<bar>m\<bar> * 2 powi k"
    by (simp add: r abs_mult)
  also have "\<dots> < 2 ^ p * 2 powi k"
  proof -
    have "real_of_int \<bar>m\<bar> < real_of_int (2 ^ p)" using m by linarith
    then show ?thesis by (intro mult_strict_right_mono) simp_all
  qed
  also have "\<dots> = 2 powi (int p + k)"
    by (simp add: power_int_add)
  finally have up: "\<bar>r\<bar> < 2 powi (int p + k)" .
  have "(2::real) powi L \<le> \<bar>r\<bar>"
    using floor_log2_bounds(1) [OF nz] by (simp add: L_def)
  with up have "(2::real) powi L < 2 powi (int p + k)" by simp
  then have "L < int p + k"
    by (smt (verit) power_int_increasing)
  then have ek: "e \<le> k" using k by (simp add: e_def)
  define j where "j = nat (k - e)"
  have kj: "k = e + int j" using ek by (simp add: j_def)
  have q: "r / 2 powi e = of_int (m * 2 ^ j)"
    by (simp add: r kj power_int_add)
  have v: "of_int (round_ties_even (r / 2 powi e)) * 2 powi e = r"
    unfolding q round_ties_even_of_int by (simp add: r kj power_int_add)
  have v': "of_int (round_ties_even
        (r / 2 powi (max \<lfloor>log 2 \<bar>r\<bar>\<rfloor> (1 - emax) - (int p - 1))))
      * 2 powi (max \<lfloor>log 2 \<bar>r\<bar>\<rfloor> (1 - emax) - (int p - 1)) = r"
    using v by (simp only: e_def L_def)
  have "round_to_format p emax r
      = (if r = 0 then (if r < 0 then NegZero else Finite 0) else Finite r)"
    using round_to_format_value(2) [OF thr] unfolding v' .
  then show ?thesis using nz by simp
qed

lemma float32_threshold: "(2::real) powi 127 * (2 - 1 / 2 ^ 24) = 2 ^ 128 - 2 ^ 103"
  by simp

lemma round_to_format_zero: "round_to_format p emax 0 = Finite 0"
proof -
  have "(1::real) / 2 ^ p \<le> 1" by simp
  then have "(0::real) < 2 - 1 / 2 ^ p" by linarith
  then have "(0::real) < 2 powi emax * (2 - 1 / 2 ^ p)"
    by (intro mult_pos_pos) simp_all
  then have thr: "\<bar>0::real\<bar> < 2 powi emax * (2 - 1 / 2 ^ p)" by simp
  have z: "round_ties_even 0 = 0" by (simp add: round_ties_even_def)
  show ?thesis
    using round_to_format_value(2) [OF thr] by (simp add: z)
qed

lemma below_threshold:
  assumes m: "\<bar>m\<bar> < 2 ^ 24" and k: "k \<le> 104"
  shows "\<bar>real_of_int m * 2 powi k\<bar> < 2 powi 127 * (2 - 1 / 2 ^ 24)"
proof -
  have "\<bar>m\<bar> \<le> 2 ^ 24 - 1" using m by simp
  then have "real_of_int \<bar>m\<bar> \<le> real_of_int (2 ^ 24 - 1)"
    by (simp only: of_int_le_iff)
  then have 1: "real_of_int \<bar>m\<bar> \<le> 2 ^ 24 - 1" by simp
  have 2: "(2::real) powi k \<le> 2 powi 104"
    using k by (intro power_int_increasing) simp_all
  have "real_of_int \<bar>m\<bar> * 2 powi k \<le> (2 ^ 24 - 1) * 2 powi 104"
    using 1 2 by (intro mult_mono) simp_all
  also have "\<dots> = 2 ^ 128 - 2 ^ 104" by simp
  also have "\<dots> < (2::real) ^ 128 - 2 ^ 103" by simp
  finally have "real_of_int \<bar>m\<bar> * 2 powi k < 2 ^ 128 - 2 ^ 103" .
  moreover have "\<bar>real_of_int m * 2 powi k\<bar> = real_of_int \<bar>m\<bar> * 2 powi k"
    by (simp add: abs_mult)
  ultimately show ?thesis
    by (simp only: float32_threshold)
qed


lemma float32_conv_error:
  assumes "\<bar>d\<bar> < 2 ^ 128 - 2 ^ 103"
  shows "float_is_number (float32_conv (Finite d))"
    and "\<bar>float_val (float32_conv (Finite d)) - d\<bar> \<le> max (\<bar>d\<bar> / 2 ^ 24) (1 / 2 ^ 150)"
proof -
  have thr: "\<bar>d\<bar> < 2 powi 127 * (2 - 1 / 2 ^ 24)"
    using assms by (simp only: float32_threshold)
  show "float_is_number (float32_conv (Finite d))"
    using round_to_format_number [OF thr]
    by (metis float32_conv.simps(1) float_is_number.simps(1,2))
  have "(2::real) powi (1 - 127 - int 24) = 1 / 2 ^ 150"
    by (simp add: power_int_minus divide_simps)
  then show "\<bar>float_val (float32_conv (Finite d)) - d\<bar> \<le> max (\<bar>d\<bar> / 2 ^ 24) (1 / 2 ^ 150)"
    using round_to_format_error [OF thr] by simp
qed

lemma float32_conv_exact:
  assumes m: "\<bar>m\<bar> < 2 ^ 24" and k: "- 149 \<le> k" "k \<le> 104"
  shows "float32_conv (Finite (of_int m * 2 powi k)) = Finite (of_int m * 2 powi k)"
proof (cases "m = 0")
  case True
  then show ?thesis by (simp add: round_to_format_zero)
next
  case False
  let ?r = "real_of_int m * 2 powi k"
  have nz: "?r \<noteq> 0" using False by simp
  have thr: "\<bar>?r\<bar> < 2 powi 127 * (2 - 1 / 2 ^ 24)"
    using m k(2) by (rule below_threshold)
  have "round_to_format 24 127 ?r = Finite ?r"
    using m k(1) nz thr by (intro round_to_format_exact [of _ m k]) simp_all
  then show ?thesis by simp
qed

lemma float64_sub_int_zero:
  assumes "m \<noteq> 0" "\<bar>m\<bar> < 2 ^ 53"
  shows "float64_sub (Finite (of_int m)) (Finite 0) = Finite (of_int m)"
proof -
  have "real_of_int \<bar>m\<bar> < real_of_int (2 ^ 53)"
    using assms(2) by (simp only: of_int_less_iff)
  then have small: "\<bar>real_of_int m\<bar> < 2 ^ 53" by simp
  have "(2::real) ^ 53 \<le> 2 powi 1023 * 1"
    using power_int_increasing [of 53 1023 "2::real"] by simp
  also have "\<dots> \<le> 2 powi 1023 * (2 - 1 / 2 ^ 53)"
    by (intro mult_left_mono) simp_all
  finally have thr: "\<bar>real_of_int m\<bar> < 2 powi 1023 * (2 - 1 / 2 ^ 53)"
    using small by simp
  have "round_to_format 53 1023 (of_int m) = Finite (of_int m)"
    using assms thr by (intro round_to_format_exact [of _ m 0]) simp_all
  then show ?thesis by simp
qed

text \<open>
  The two roundings at 16777217, which is \<open>2^24 + 1\<close>: a double, but not a single.
\<close>

lemma float64_sub_16777217: "float64_sub (Finite 16777217) (Finite 0) = Finite 16777217"
  using float64_sub_int_zero [of 16777217] by simp

lemma float32_conv_16777217: "float32_conv (Finite 16777217) = Finite 16777216"
proof -
  have L: "\<lfloor>log 2 \<bar>16777217::real\<bar>\<rfloor> = 24"
    by (rule floor_log2_eq) simp_all
  have thr: "\<bar>16777217::real\<bar> < 2 powi 127 * (2 - 1 / 2 ^ 24)"
    by (simp only: float32_threshold) simp
  have q: "round_ties_even (16777217 / 2) = 8388608"
    by (simp add: round_ties_even_def)
  have L': "\<lfloor>log 2 (16777217::real)\<rfloor> = 24" using L by simp
  show ?thesis
    using round_to_format_value(2) [OF thr] by (simp add: L' q)
qed

section \<open>Conversion against a baseline rounds to single precision\<close>

text \<open>
  Claim C1, as stated: for every raw point and baseline, each coordinate of the point
  \<open>ToPointFromBaseline\<close> returns equals the difference of the raw coordinate and the
  baseline coordinate exactly. This fails: for the raw coordinate 16777217 and the
  baseline coordinate 0 the difference is 16777217, and the coordinate returned is
  16777216, the nearest single-precision number.
\<close>

theorem ToPointFromBaseline_not_exact:
  "Point32.X (ToPointFromBaseline float64_sub float32_conv
      (Point64_zero\<lparr>Point64.X := Finite 16777217\<rparr>) Point64_zero) = Finite 16777216
   \<and> float64_sub (Point64.X (Point64_zero\<lparr>Point64.X := Finite 16777217\<rparr>))
        (Point64.X Point64_zero) = Finite 16777217
   \<and> Point32.X (ToPointFromBaseline float64_sub float32_conv
        (Point64_zero\<lparr>Point64.X := Finite 16777217\<rparr>) Point64_zero)
      \<noteq> float64_sub (Point64.X (Point64_zero\<lparr>Point64.X := Finite 16777217\<rparr>))
          (Point64.X Point64_zero)"
proof -
  have z: "Point64.X Point64_zero = Finite 0" by (simp add: Point64_zero_def)
  have r64: "round_to_format 53 1023 16777217 = Finite 16777217"
    using float64_sub_16777217 by simp
  have r32: "round_to_format 24 127 16777217 = Finite 16777216"
    using float32_conv_16777217 by simp
  show ?thesis
    by (simp add: ToPointFromBaseline_def NewPoint32_def z r64 r32)
qed

text \<open>
  Claim C1, amended. For every raw point and baseline, each coordinate of the point
  \<open>ToPointFromBaseline\<close> returns is the double-precision difference of the raw
  coordinate and the baseline coordinate, converted to single precision. When that
  difference is a finite number \<open>d\<close> below the single-precision overflow threshold, the
  coordinate is a number within \<open>\<bar>d\<bar> / 2^24\<close> of \<open>d\<close> (within \<open>1 / 2^150\<close> for the
  smallest magnitudes); and it equals the difference exactly when the difference is a
  single-precision number, that is \<open>m * 2^k\<close> with \<open>\<bar>m\<bar> < 2^24\<close> and \<open>k\<close> from -149 to 104.
\<close>

theorem ToPointFromBaseline_rounds:
  "coord32 a (ToPointFromBaseline float64_sub float32_conv p baseline)
     = float32_conv (float64_sub (coord64 a p) (coord64 a baseline))
   \<and> (float64_sub (coord64 a p) (coord64 a baseline) = Finite d \<and> \<bar>d\<bar> < 2 ^ 128 - 2 ^ 103 \<longrightarrow>
        float_is_number (coord32 a (ToPointFromBaseline float64_sub float32_conv p baseline))
        \<and> \<bar>float_val (coord32 a (ToPointFromBaseline float64_sub float32_conv p baseline)) - d\<bar>
            \<le> max (\<bar>d\<bar> / 2 ^ 24) (1 / 2 ^ 150))
   \<and> (float64_sub (coord64 a p) (coord64 a baseline) = Finite (of_int m * 2 powi k)
        \<and> \<bar>m\<bar> < 2 ^ 24 \<and> - 149 \<le> k \<and> k \<le> 104 \<longrightarrow>
        coord32 a (ToPointFromBaseline float64_sub float32_conv p baseline)
          = float64_sub (coord64 a p) (coord64 a baseline))"
proof -
  have c: "coord32 a (ToPointFromBaseline float64_sub float32_conv p baseline)
     = float32_conv (float64_sub (coord64 a p) (coord64 a baseline))"
    by (cases a) (simp_all add: ToPointFromBaseline_def NewPoint32_def)
  have err: "float64_sub (coord64 a p) (coord64 a baseline) = Finite d \<and> \<bar>d\<bar> < 2 ^ 128 - 2 ^ 103 \<longrightarrow>
        float_is_number (coord32 a (ToPointFromBaseline float64_sub float32_conv p baseline))
        \<and> \<bar>float_val (coord32 a (ToPointFromBaseline float64_sub float32_conv p baseline)) - d\<bar>
            \<le> max (\<bar>d\<bar> / 2 ^ 24) (1 / 2 ^ 150)"
    using float32_conv_error [of d] by (simp only: c) simp
  have ex: "float64_sub (coord64 a p) (coord64 a baseline) = Finite (of_int m * 2 powi k)
        \<and> \<bar>m\<bar> < 2 ^ 24 \<and> - 149 \<le> k \<and> k \<le> 104 \<longrightarrow>
        coord32 a (ToPointFromBaseline float64_sub float32_conv p baseline)
          = float64_sub (coord64 a p) (coord64 a baseline)"
    using float32_conv_exact [of m k] by (simp only: c) simp
  from c err ex show ?thesis by (intro conjI)
qed

theorem ToPointFromBaseline_rounds_witness:
  "float64_sub (Point64.X (Point64_zero\<lparr>Point64.X := Finite 16777217\<rparr>)) (Point64.X Point64_zero)
     = Finite 16777217
   \<and> \<bar>16777217 :: real\<bar> < 2 ^ 128 - 2 ^ 103
   \<and> float_is_number (Point32.X (ToPointFromBaseline float64_sub float32_conv
        (Point64_zero\<lparr>Point64.X := Finite 16777217\<rparr>) Point64_zero))
   \<and> \<bar>float_val (Point32.X (ToPointFromBaseline float64_sub float32_conv
        (Point64_zero\<lparr>Point64.X := Finite 16777217\<rparr>) Point64_zero)) - 16777217\<bar>
        \<le> max (\<bar>16777217\<bar> / 2 ^ 24) (1 / 2 ^ 150)
   \<and> float64_sub (Point64.Y (Point64_zero\<lparr>Point64.Y := Finite 3\<rparr>)) (Point64.Y Point64_zero)
     = Finite 3
   \<and> Point32.Y (ToPointFromBaseline float64_sub float32_conv
        (Point64_zero\<lparr>Point64.Y := Finite 3\<rparr>) Point64_zero) = Finite 3"
proof -
  have z: "Point64.X Point64_zero = Finite 0" "Point64.Y Point64_zero = Finite 0"
    by (simp_all add: Point64_zero_def)
  have d1: "float64_sub (coord64 AxisX (Point64_zero\<lparr>Point64.X := Finite 16777217\<rparr>))
      (coord64 AxisX Point64_zero) = Finite 16777217"
    using float64_sub_16777217 by (simp add: z)
  have b1: "\<bar>16777217 :: real\<bar> < 2 ^ 128 - 2 ^ 103" by simp
  have d2: "float64_sub (coord64 AxisY (Point64_zero\<lparr>Point64.Y := Finite 3\<rparr>))
      (coord64 AxisY Point64_zero) = Finite (of_int 3 * 2 powi 0)"
    using float64_sub_int_zero [of 3] by (simp add: z)
  have b2: "\<bar>3 :: int\<bar> < 2 ^ 24" "- 149 \<le> (0::int)" "(0::int) \<le> 104" by simp_all
  have w1: "float_is_number (coord32 AxisX (ToPointFromBaseline float64_sub float32_conv
        (Point64_zero\<lparr>Point64.X := Finite 16777217\<rparr>) Point64_zero))
     \<and> \<bar>float_val (coord32 AxisX (ToPointFromBaseline float64_sub float32_conv
        (Point64_zero\<lparr>Point64.X := Finite 16777217\<rparr>) Point64_zero)) - 16777217\<bar>
        \<le> max (\<bar>16777217\<bar> / 2 ^ 24) (1 / 2 ^ 150)"
    using ToPointFromBaseline_rounds
      [of AxisX "Point64_zero\<lparr>Point64.X := Finite 16777217\<rparr>" Point64_zero 16777217]
      d1 b1 by blast
  have w2: "coord32 AxisY (ToPointFromBaseline float64_sub float32_conv
        (Point64_zero\<lparr>Point64.Y := Finite 3\<rparr>) Point64_zero)
      = float64_sub (coord64 AxisY (Point64_zero\<lparr>Point64.Y := Finite 3\<rparr>))
          (coord64 AxisY Point64_zero)"
    using ToPointFromBaseline_rounds
      [of AxisY "Point64_zero\<lparr>Point64.Y := Finite 3\<rparr>" Point64_zero _ 3 0]
      d2 b2 by blast
  have e1: "float64_sub (Point64.X (Point64_zero\<lparr>Point64.X := Finite 16777217\<rparr>))
      (Point64.X Point64_zero) = Finite 16777217"
    using d1 by simp
  have e2: "float64_sub (Point64.Y (Point64_zero\<lparr>Point64.Y := Finite 3\<rparr>))
      (Point64.Y Point64_zero) = Finite 3"
    using d2 by simp
  have w2': "Point32.Y (ToPointFromBaseline float64_sub float32_conv
        (Point64_zero\<lparr>Point64.Y := Finite 3\<rparr>) Point64_zero) = Finite 3"
    using w2 e2 by simp
  from e1 b1 w1 e2 w2' show ?thesis by simp
qed

section \<open>Conversion against a baseline keeps the attributes\<close>

text \<open>
  Claim C6. For every point, every baseline, and whatever the rounding of the
  subtraction and of the conversion to single precision, the R, G, B, Intensity and
  Classification of the point \<open>ToPointFromBaseline\<close> returns are those of the input
  point.
\<close>

theorem ToPointFromBaseline_attributes:
  "Point32.R (ToPointFromBaseline sub64 float32 p baseline) = Point64.R p
   \<and> Point32.G (ToPointFromBaseline sub64 float32 p baseline) = Point64.G p
   \<and> Point32.B (ToPointFromBaseline sub64 float32 p baseline) = Point64.B p
   \<and> Point32.Intensity (ToPointFromBaseline sub64 float32 p baseline) = Point64.Intensity p
   \<and> Point32.Classification (ToPointFromBaseline sub64 float32 p baseline)
       = Point64.Classification p"
  by (simp add: ToPointFromBaseline_def NewPoint32_def)

section \<open>The linked point stream\<close>

lemma Next_at_end:
  "current l = None \<Longrightarrow> Next h l = ((Point32_zero, Some (Errorf ''no more points'')), l)"
  by (simp add: Next_def)

lemma Next_n_at_end:
  "current l = None \<Longrightarrow>
   Next_n h k l = (replicate k (Point32_zero, Some (Errorf ''no more points'')), l)"
  by (induction k) (simp_all add: Next_at_end)

text \<open>
  A stream whose cursor is at the head of a nil-terminated list delivers the list, then
  errors.
\<close>

lemma Next_n_linked_list:
  "linked_list h (current l) pts \<Longrightarrow>
   Next_n h (length pts + k) l =
     (map (\<lambda>p. (p, None)) pts @ replicate k (Point32_zero, Some (Errorf ''no more points'')),
      l\<lparr>current := None\<rparr>)"
proof (induction pts arbitrary: l)
  case Nil
  then show ?case by (simp add: Next_n_at_end)
next
  case (Cons p ps)
  then obtain a where a: "current l = Some a" "Pt (h a) = p"
    and rest: "linked_list h (LinkedPoint.Next (h a)) ps"
    by (auto split: option.splits)
  let ?l' = "l\<lparr>current := LinkedPoint.Next (h a)\<rparr>"
  have step: "Next h l = ((p, None), ?l')" using a by (simp add: Next_def)
  have "linked_list h (current ?l') ps" using rest by simp
  from Cons.IH [OF this] show ?case using step by simp
qed

text \<open>No call writes \<open>len\<close> or \<open>start\<close>.\<close>

lemma run_calls_keeps:
  "len (run_calls h cs l) = len l \<and> start (run_calls h cs l) = start l"
proof (induction cs arbitrary: l)
  case Nil
  show ?case by simp
next
  case (Cons c cs)
  show ?case
    by (cases c) (simp_all add: Cons.IH Next_def Reset_def split: option.splits)
qed

lemma Reset_run_calls:
  "Reset (run_calls h cs (NewLinkedPointStream r n)) = NewLinkedPointStream r n"
proof -
  let ?l = "run_calls h cs (NewLinkedPointStream r n)"
  have "len ?l = n" "start ?l = r"
    using run_calls_keeps [of h cs "NewLinkedPointStream r n"]
    by (simp_all add: NewLinkedPointStream_def)
  then show ?thesis
    by (simp add: Reset_def NewLinkedPointStream_def)
qed

text \<open>
  Claim C2. For a stream built over a finite list without a cycle (the \<open>Next\<close> pointers
  from the root \<open>r\<close> reach nil over the points \<open>pts\<close>): the freshly constructed stream
  delivers \<open>pts\<close> in order, each with a nil error, and then the error "no more points"
  on each of \<open>k\<close> further calls; and after any sequence \<open>cs\<close> of earlier calls, \<open>Reset\<close>
  followed by the same number of calls to \<open>Next\<close> delivers exactly the same sequence.
  So the stream can be restarted any number of times.
\<close>

theorem stream_restart:
  "linked_list h r pts \<Longrightarrow>
   fst (Next_n h (length pts + k) (NewLinkedPointStream r n)) =
     map (\<lambda>p. (p, None)) pts @ replicate k (Point32_zero, Some (Errorf ''no more points''))
   \<and> fst (Next_n h (length pts + k) (Reset (run_calls h cs (NewLinkedPointStream r n)))) =
     map (\<lambda>p. (p, None)) pts @ replicate k (Point32_zero, Some (Errorf ''no more points''))"
proof -
  assume ll: "linked_list h r pts"
  then have "linked_list h (current (NewLinkedPointStream r n)) pts"
    by (simp add: NewLinkedPointStream_def)
  from Next_n_linked_list [OF this, of k] show ?thesis
    by (simp add: Reset_run_calls)
qed

theorem stream_restart_witness:
  "linked_list
     (\<lambda>a. if a = 0 then \<lparr>LinkedPoint.Next = Some 1, Pt = Point32_zero\<rparr>
          else \<lparr>LinkedPoint.Next = None, Pt = Point32_zero\<lparr>Point32.X := Finite 1\<rparr>\<rparr>)
     (Some 0) [Point32_zero, Point32_zero\<lparr>Point32.X := Finite 1\<rparr>]
   \<and> fst (Next_n
       (\<lambda>a. if a = 0 then \<lparr>LinkedPoint.Next = Some 1, Pt = Point32_zero\<rparr>
          else \<lparr>LinkedPoint.Next = None, Pt = Point32_zero\<lparr>Point32.X := Finite 1\<rparr>\<rparr>)
       3
       (Reset (run_calls
         (\<lambda>a. if a = 0 then \<lparr>LinkedPoint.Next = Some 1, Pt = Point32_zero\<rparr>
            else \<lparr>LinkedPoint.Next = None, Pt = Point32_zero\<lparr>Point32.X := Finite 1\<rparr>\<rparr>)
         [CallNext, CallReset, CallNext, CallNext, CallNext]
         (NewLinkedPointStream (Some 0) 2)))) =
     [(Point32_zero, None), (Point32_zero\<lparr>Point32.X := Finite 1\<rparr>, None),
      (Point32_zero, Some (Errorf ''no more points''))]"
proof -
  let ?h = "\<lambda>a::nat. if a = 0 then \<lparr>LinkedPoint.Next = Some 1, Pt = Point32_zero\<rparr>
          else \<lparr>LinkedPoint.Next = None, Pt = Point32_zero\<lparr>Point32.X := Finite 1\<rparr>\<rparr>"
  have ll: "linked_list ?h (Some 0) [Point32_zero, Point32_zero\<lparr>Point32.X := Finite 1\<rparr>]"
    by simp
  from stream_restart [OF ll, of 1 2 "[CallNext, CallReset, CallNext, CallNext, CallNext]"] ll
  show ?thesis by (simp add: numeral_3_eq_3)
qed

text \<open>
  Claim C10. \<open>Len\<close> returns the length given to \<open>NewLinkedPointStream\<close>, after any
  sequence of calls to \<open>Next\<close>, \<open>Len\<close> and \<open>Reset\<close>, whatever the root and the nodes
  are: the value is never compared with the list. So it may disagree with the number
  of points \<open>Next\<close> delivers: a stream built from a nil root with any length \<open>n\<close> has
  \<open>Len\<close> equal to \<open>n\<close>, and its first \<open>Next\<close> already returns the error.
\<close>

theorem Len_is_constructor_argument:
  "Len (run_calls h cs (NewLinkedPointStream r n)) = n
   \<and> Len (NewLinkedPointStream None n) = n
   \<and> Next h (NewLinkedPointStream None n) =
       ((Point32_zero, Some (Errorf ''no more points'')), NewLinkedPointStream None n)"
  using run_calls_keeps [of h cs "NewLinkedPointStream r n"]
  by (simp add: Len_def NewLinkedPointStream_def Next_def)

section \<open>Validation of the command-line options\<close>

text \<open>
  When the resolution is a number or an infinity, \<open>validate\<close> returns exactly for the
  configurations the specification allows.
\<close>

lemma validate_iff_valid_unless_NaN:
  "resolution c \<noteq> NaN \<Longrightarrow> (validate c = Inr ()) = valid_configuration c"
  by (cases "resolution c")
     (auto simp add: validate_def valid_configuration_def float_gt_def)

text \<open>
  Claim C5. Validation should accept an options record if and only if the output path
  is not empty, the EPSG code is positive, \<open>maxDepth\<close> is in 2..20, \<open>minPoints\<close> is at
  least 1 and the resolution is in the range 0.5 to 1000. The code does not: with a NaN
  resolution (\<open>-resolution NaN\<close> on the command line) both comparisons
  \<open>c.resolution < 0.5\<close> and \<open>c.resolution > 1000\<close> are false, so \<open>validate\<close> returns
  although NaN is not in the range.
\<close>

theorem validate_accepts_NaN_resolution:
  "validate \<lparr>output = ''out'', epsg = 4979, maxDepth = 10, minPoints = 5000,
      resolution = NaN, zOffset = Finite 0, geoid = False, eightBit = False, join = False\<rparr>
     = Inr ()
   \<and> \<not> valid_configuration \<lparr>output = ''out'', epsg = 4979, maxDepth = 10, minPoints = 5000,
      resolution = NaN, zOffset = Finite 0, geoid = False, eightBit = False, join = False\<rparr>"
  by (simp add: validate_def valid_configuration_def float_gt_def)

section \<open>The tiler options\<close>

lemmas With_defs =
  WithGridSize_def WithMaxDepth_def WithElevationOffset_def WithWorkerNumber_def
  WithMinPointsPerTile_def WithCallback_def WithEightBitColors_def WithGeoidElevation_def

lemma option_fn_frame:
  "fn \<in> option_fns F \<Longrightarrow> F' \<noteq> F \<Longrightarrow> agree_on F' (fn opt) opt"
  by (cases F; cases F') (auto simp add: With_defs)

lemma option_fn_sets_constant:
  "f \<in> option_fns F \<Longrightarrow> agree_on F (f a) (f b)"
  by (cases F) (auto simp add: With_defs)

lemma agree_on_trans:
  "agree_on F' a b \<Longrightarrow> agree_on F' b c \<Longrightarrow> agree_on F' a c"
  by (cases F') simp_all

text \<open>A run of option functions for other fields leaves a field as it was.\<close>

lemma foldl_option_fns_frame:
  "\<forall>fn\<in>set fns. \<exists>F. F \<noteq> F' \<and> fn \<in> option_fns F \<Longrightarrow>
   agree_on F' (foldl (\<lambda>opts fn. fn opts) opt fns) opt"
proof (induction fns arbitrary: opt)
  case Nil
  show ?case by (cases F') simp_all
next
  case (Cons fn fns)
  then obtain F where F: "F \<noteq> F'" "fn \<in> option_fns F" by auto
  have 1: "agree_on F' (fn opt) opt" using F by (intro option_fn_frame) auto
  have 2: "agree_on F' (foldl (\<lambda>opts fn. fn opts) (fn opt) fns) (fn opt)"
    using Cons.prems by (intro Cons.IH) simp
  show ?case using agree_on_trans [OF 2 1] by simp
qed

lemma option_fns_commute:
  "f \<in> option_fns F \<Longrightarrow> g \<in> option_fns F' \<Longrightarrow> F \<noteq> F' \<Longrightarrow> f (g opt) = g (f opt)"
  by (cases F; cases F') (auto simp add: With_defs)

lemma option_fns_last_wins:
  "f \<in> option_fns F \<Longrightarrow> f' \<in> option_fns F \<Longrightarrow> f' (f opt) = f' opt"
  by (cases F) (auto simp add: With_defs)

text \<open>
  Claim C8. The default options hold the host's CPU count (\<open>runtime.NumCPU()\<close>, here
  \<open>nCPU\<close>) in the field \<open>numWorkers\<close>, and so do the options \<open>NewTilerOptions\<close> returns
  whenever no \<open>WithWorkerNumber\<close> option is supplied: for no options at all, and for any
  list of options made by the other seven \<open>WithX\<close> functions.
\<close>

theorem default_worker_number:
  "numWorkers (NewDefaultTilerOptions nCPU) = nCPU
   \<and> numWorkers (NewTilerOptions nCPU []) = nCPU
   \<and> ((\<forall>fn\<in>set optFn. \<exists>F. F \<noteq> NumWorkers \<and> fn \<in> option_fns F) \<longrightarrow>
        numWorkers (NewTilerOptions nCPU optFn) = nCPU)"
proof -
  have d: "numWorkers (NewDefaultTilerOptions nCPU) = nCPU"
    by (simp add: NewDefaultTilerOptions_def)
  have e: "numWorkers (NewTilerOptions nCPU []) = nCPU"
    using d by (simp add: NewTilerOptions_def)
  have imp: "(\<forall>fn\<in>set optFn. \<exists>F. F \<noteq> NumWorkers \<and> fn \<in> option_fns F) \<longrightarrow>
        numWorkers (NewTilerOptions nCPU optFn) = nCPU"
  proof
    assume h: "\<forall>fn\<in>set optFn. \<exists>F. F \<noteq> NumWorkers \<and> fn \<in> option_fns F"
    from foldl_option_fns_frame [OF h, of "NewDefaultTilerOptions nCPU"] d
    show "numWorkers (NewTilerOptions nCPU optFn) = nCPU"
      by (simp add: NewTilerOptions_def)
  qed
  from d e imp show ?thesis by (intro conjI)
qed

theorem default_worker_number_witness:
  "GridSize \<noteq> NumWorkers
   \<and> (WithGridSize (Finite 5) :: unit tilerOptionsFn) \<in> option_fns GridSize
   \<and> MaxDepth \<noteq> NumWorkers
   \<and> (WithMaxDepth 12 :: unit tilerOptionsFn) \<in> option_fns MaxDepth
   \<and> numWorkers (NewTilerOptions 8 [WithGridSize (Finite 5), WithMaxDepth 12 :: unit tilerOptionsFn]) = 8"
proof -
  have 1: "\<exists>F. F \<noteq> NumWorkers \<and> (WithGridSize (Finite 5) :: unit tilerOptionsFn) \<in> option_fns F"
    by (rule exI [of _ GridSize]) simp
  have 2: "\<exists>F. F \<noteq> NumWorkers \<and> (WithMaxDepth 12 :: unit tilerOptionsFn) \<in> option_fns F"
    by (rule exI [of _ MaxDepth]) simp
  have h: "\<forall>fn\<in>set [WithGridSize (Finite 5), WithMaxDepth 12 :: unit tilerOptionsFn].
      \<exists>F. F \<noteq> NumWorkers \<and> fn \<in> option_fns F"
    using 1 2 by simp
  have c: "numWorkers (NewTilerOptions 8 [WithGridSize (Finite 5), WithMaxDepth 12 :: unit tilerOptionsFn]) = 8"
    using default_worker_number [of 8 "[WithGridSize (Finite 5), WithMaxDepth 12 :: unit tilerOptionsFn]"] h
    by blast
  show ?thesis using c by simp
qed

text \<open>
  Claim C9. \<open>NewTilerOptions\<close> applies the option functions from left to right over the
  defaults: no options give the defaults, and one more option at the end is applied to
  the result of those before it. Each \<open>WithX\<close> function stores its argument in its own
  field, and an option function for a field \<open>F\<close> leaves every other field \<open>F'\<close> as it
  was. Hence two options for distinct fields commute, also in the middle of a list; of
  two consecutive options for the same field the later one wins; and the field holds
  the value of the last option supplied for it, whatever options for other fields
  follow.
\<close>

theorem options_applied_in_order:
  "NewTilerOptions nCPU [] = NewDefaultTilerOptions nCPU
   \<and> NewTilerOptions nCPU (optFn @ [fn]) = fn (NewTilerOptions nCPU optFn)
   \<and> gridSize (WithGridSize sz opt) = sz
   \<and> TilerOptions.maxDepth (WithMaxDepth d opt) = d
   \<and> elevationOffset (WithElevationOffset off opt) = off
   \<and> numWorkers (WithWorkerNumber w opt) = w
   \<and> minPointsPerTile (WithMinPointsPerTile mp opt) = mp
   \<and> callback (WithCallback cb opt) = cb
   \<and> eightBitColors (WithEightBitColors e opt) = e
   \<and> geoidElevation (WithGeoidElevation ge opt) = ge
   \<and> (fn \<in> option_fns F \<and> F' \<noteq> F \<longrightarrow> agree_on F' (fn opt) opt)
   \<and> (f \<in> option_fns F \<and> g \<in> option_fns F' \<and> F \<noteq> F' \<longrightarrow>
        f (g opt) = g (f opt)
        \<and> NewTilerOptions nCPU (optFn @ [f, g] @ rest)
            = NewTilerOptions nCPU (optFn @ [g, f] @ rest))
   \<and> (f \<in> option_fns F \<and> f' \<in> option_fns F \<longrightarrow>
        f' (f opt) = f' opt
        \<and> NewTilerOptions nCPU (optFn @ [f, f'] @ rest)
            = NewTilerOptions nCPU (optFn @ [f'] @ rest))
   \<and> (f \<in> option_fns F \<and> (\<forall>g\<in>set rest. \<exists>F'. F' \<noteq> F \<and> g \<in> option_fns F') \<longrightarrow>
        agree_on F (NewTilerOptions nCPU (optFn @ f # rest)) (f opt))"
proof -
  have order: "NewTilerOptions nCPU [] = NewDefaultTilerOptions nCPU"
      "NewTilerOptions nCPU (optFn @ [fn]) = fn (NewTilerOptions nCPU optFn)"
    by (simp_all add: NewTilerOptions_def)
  have sets: "gridSize (WithGridSize sz opt) = sz"
      "TilerOptions.maxDepth (WithMaxDepth d opt) = d"
      "elevationOffset (WithElevationOffset off opt) = off"
      "numWorkers (WithWorkerNumber w opt) = w"
      "minPointsPerTile (WithMinPointsPerTile mp opt) = mp"
      "callback (WithCallback cb opt) = cb"
      "eightBitColors (WithEightBitColors e opt) = e"
      "geoidElevation (WithGeoidElevation ge opt) = ge"
    by (simp_all add: With_defs)
  have frame: "fn \<in> option_fns F \<and> F' \<noteq> F \<longrightarrow> agree_on F' (fn opt) opt"
    using option_fn_frame by blast
  have comm: "f \<in> option_fns F \<and> g \<in> option_fns F' \<and> F \<noteq> F' \<longrightarrow>
        f (g opt) = g (f opt)
        \<and> NewTilerOptions nCPU (optFn @ [f, g] @ rest)
            = NewTilerOptions nCPU (optFn @ [g, f] @ rest)"
    using option_fns_commute [of f F g F'] by (simp add: NewTilerOptions_def)
  have last: "f \<in> option_fns F \<and> f' \<in> option_fns F \<longrightarrow>
        f' (f opt) = f' opt
        \<and> NewTilerOptions nCPU (optFn @ [f, f'] @ rest)
            = NewTilerOptions nCPU (optFn @ [f'] @ rest)"
    using option_fns_last_wins [of f F f'] by (simp add: NewTilerOptions_def)
  have final: "f \<in> option_fns F \<and> (\<forall>g\<in>set rest. \<exists>F'. F' \<noteq> F \<and> g \<in> option_fns F') \<longrightarrow>
        agree_on F (NewTilerOptions nCPU (optFn @ f # rest)) (f opt)"
  proof
    assume h: "f \<in> option_fns F \<and> (\<forall>g\<in>set rest. \<exists>F'. F' \<noteq> F \<and> g \<in> option_fns F')"
    then have r: "\<forall>g\<in>set rest. \<exists>F'. F' \<noteq> F \<and> g \<in> option_fns F'" by simp
    have 1: "agree_on F (foldl (\<lambda>opts fn. fn opts) (f (NewTilerOptions nCPU optFn)) rest)
        (f (NewTilerOptions nCPU optFn))"
      by (rule foldl_option_fns_frame [OF r])
    have 2: "agree_on F (f (NewTilerOptions nCPU optFn)) (f opt)"
      using h by (intro option_fn_sets_constant) simp
    show "agree_on F (NewTilerOptions nCPU (optFn @ f # rest)) (f opt)"
      using agree_on_trans [OF 1 2] by (simp add: NewTilerOptions_def)
  qed
  from order sets frame comm last final show ?thesis by (intro conjI)
qed

theorem options_applied_in_order_witness:
  "(WithGridSize (Finite 5) :: unit tilerOptionsFn) \<in> option_fns GridSize
   \<and> (WithMaxDepth 7 :: unit tilerOptionsFn) \<in> option_fns MaxDepth
   \<and> (WithGridSize (Finite 9) :: unit tilerOptionsFn) \<in> option_fns GridSize
   \<and> MaxDepth \<noteq> GridSize
   \<and> (WithMaxDepth 3 :: unit tilerOptionsFn) \<in> option_fns MaxDepth
   \<and> NewTilerOptions 8 ([WithEightBitColors True] @ [WithGridSize (Finite 5), WithMaxDepth 7] @ [WithMaxDepth 3])
       = (NewTilerOptions 8 ([WithEightBitColors True] @ [WithMaxDepth 7, WithGridSize (Finite 5)] @ [WithMaxDepth 3])
           :: unit TilerOptions)
   \<and> NewTilerOptions 8 ([WithEightBitColors True] @ [WithGridSize (Finite 5), WithGridSize (Finite 9)] @ [WithMaxDepth 3])
       = (NewTilerOptions 8 ([WithEightBitColors True] @ [WithGridSize (Finite 9)] @ [WithMaxDepth 3])
           :: unit TilerOptions)
   \<and> TilerOptions.maxDepth (WithGridSize (Finite 5) (NewDefaultTilerOptions 8 :: unit TilerOptions)) = 10
   \<and> gridSize (NewTilerOptions 8 ([WithEightBitColors True] @ WithGridSize (Finite 5) # [WithMaxDepth 3])
        :: unit TilerOptions) = Finite 5"
proof -
  have m: "(WithGridSize (Finite 5) :: unit tilerOptionsFn) \<in> option_fns GridSize"
      "(WithMaxDepth 7 :: unit tilerOptionsFn) \<in> option_fns MaxDepth"
      "(WithGridSize (Finite 9) :: unit tilerOptionsFn) \<in> option_fns GridSize"
      "MaxDepth \<noteq> GridSize"
    by simp_all
  have "\<exists>F'. F' \<noteq> GridSize \<and> (WithMaxDepth 3 :: unit tilerOptionsFn) \<in> option_fns F'"
    by (rule exI [of _ MaxDepth]) simp
  then have r: "\<forall>g\<in>set [WithMaxDepth 3 :: unit tilerOptionsFn]. \<exists>F'. F' \<noteq> GridSize \<and> g \<in> option_fns F'"
    by simp
  have d: "TilerOptions.maxDepth (NewDefaultTilerOptions 8 :: unit TilerOptions) = 10"
      "gridSize (WithGridSize (Finite 5) (NewDefaultTilerOptions 8 :: unit TilerOptions)) = Finite 5"
    by (simp_all add: NewDefaultTilerOptions_def WithGridSize_def)
  from options_applied_in_order
    [where nCPU = 8 and optFn = "[WithEightBitColors True]"
       and fn = "WithGridSize (Finite 5) :: unit tilerOptionsFn"
       and F = GridSize and F' = MaxDepth
       and f = "WithGridSize (Finite 5)" and g = "WithMaxDepth 7"
       and f' = "WithGridSize (Finite 9)" and rest = "[WithMaxDepth 3]"
       and opt = "NewDefaultTilerOptions 8"]
    m r d
  show ?thesis by (simp add: NewTilerOptions_def NewDefaultTilerOptions_def With_defs)
qed

section \<open>The folder command\<close>

text \<open>
  Claim C7. The folder command calls the tiler at most once, and never the entry point
  of the other mode: with the join flag set every call it makes is \<open>ProcessFiles\<close>,
  without it every call is \<open>ProcessFolder\<close>. When the tiler provider returns a tiler and
  the options pass validation (the command does not exit before the tiler runs): with
  the join flag set and the folder scan returning the list \<open>files\<close>, the command calls
  \<open>ProcessFiles\<close> exactly once, with \<open>files\<close>; with the join flag not set it calls
  \<open>ProcessFolder\<close> exactly once, with the folder path. Both calls get the output folder,
  the EPSG code and the tiler options of the command line.
\<close>

theorem folderCommand_dispatch:
  "(join opts \<longrightarrow> (\<forall>c\<in>set (fst (folderCommand env opts folderpath)). is_ProcessFiles c))
   \<and> (\<not> join opts \<longrightarrow> (\<forall>c\<in>set (fst (folderCommand env opts folderpath)). \<not> is_ProcessFiles c))
   \<and> length (fst (folderCommand env opts folderpath)) \<le> 1
   \<and> (snd (tilerProvider env) = None \<and> getTilerOptions env opts = Inr tilerOpts \<longrightarrow>
        (join opts \<and> FindLasFilesInFolder env folderpath = (files, None) \<longrightarrow>
           fst (folderCommand env opts folderpath)
             = [CallProcessFiles files (output opts) (epsg opts) tilerOpts])
        \<and> (\<not> join opts \<longrightarrow>
           fst (folderCommand env opts folderpath)
             = [CallProcessFolder folderpath (output opts) (epsg opts) tilerOpts]))"
  by (auto simp add: folderCommand_def launch_def split: prod.splits option.splits sum.splits)

theorem folderCommand_dispatch_witness:
  "join (test_cliOpts True)
   \<and> snd (tilerProvider (test_environment [''test0.las'', ''test1.LAS''])) = None
   \<and> getTilerOptions (test_environment [''test0.las'', ''test1.LAS'']) (test_cliOpts True)
       = Inr test_TilerOptions
   \<and> FindLasFilesInFolder (test_environment [''test0.las'', ''test1.LAS'']) ''myfolder''
       = ([''test0.las'', ''test1.LAS''], None)
   \<and> fst (folderCommand (test_environment [''test0.las'', ''test1.LAS'']) (test_cliOpts True) ''myfolder'')
       = [CallProcessFiles [''test0.las'', ''test1.LAS''] ''abc'' 4979 test_TilerOptions]
   \<and> \<not> join (test_cliOpts False)
   \<and> getTilerOptions (test_environment [''test0.las'', ''test1.LAS'']) (test_cliOpts False)
       = Inr test_TilerOptions
   \<and> fst (folderCommand (test_environment [''test0.las'', ''test1.LAS'']) (test_cliOpts False) ''myfolder'')
       = [CallProcessFolder ''myfolder'' ''abc'' 4979 test_TilerOptions]"
proof -
  let ?env = "test_environment [''test0.las'', ''test1.LAS'']"
  have p: "snd (tilerProvider ?env) = None"
    and s: "FindLasFilesInFolder ?env ''myfolder'' = ([''test0.las'', ''test1.LAS''], None)"
    by (simp_all add: test_environment_def)
  have v: "validate (test_cliOpts j) = Inr ()" for j
    by (simp add: validate_def test_cliOpts_def float_gt_def)
  have t: "getTilerOptions ?env (test_cliOpts j) = Inr test_TilerOptions" for j
    by (simp add: getTilerOptions_def v, simp add: test_environment_def test_cliOpts_def
        test_TilerOptions_def NewTilerOptions_def NewDefaultTilerOptions_def With_defs)
  have j: "join (test_cliOpts True)" "\<not> join (test_cliOpts False)"
      "output (test_cliOpts j) = ''abc''" "epsg (test_cliOpts j) = 4979" for j
    by (simp_all add: test_cliOpts_def)
  from folderCommand_dispatch
         [of "test_cliOpts True" ?env "''myfolder''" test_TilerOptions "[''test0.las'', ''test1.LAS'']"]
       folderCommand_dispatch
         [of "test_cliOpts False" ?env "''myfolder''" test_TilerOptions "[]"]
       p s t j
  show ?thesis by simp
qed

end
